theory Spec2Isabelle
  imports Main "HOL-Library.Sublist" "HOL-Library.Stream"
begin

unbundle bit_operations_syntax

section \<open>Python values and exceptions\<close>

text \<open>
  The exceptions the script can raise.  \<open>Exception\<close> carries the message given to
  \<^verbatim>\<open>raise Exception(...)\<close>; \<open>AttributeError\<close> is what Python raises when an attribute
  is looked up on an object of the named class and is not there; \<open>KeyError\<close> is a
  failed dictionary subscript.
\<close>

datatype exn =
    Exception string
  | AttributeError string string
  | KeyError string

definition quote :: "string \<Rightarrow> string" where
  "quote s = CHR 0x27 # s @ [CHR 0x27]"

text \<open>The text Python shows for an exception (\<^verbatim>\<open>str(e)\<close>).\<close>

fun exn_message :: "exn \<Rightarrow> string" where
  "exn_message (Exception msg) = msg"
| "exn_message (AttributeError cls attr) =
     quote cls @ '' object has no attribute '' @ quote attr"
| "exn_message (KeyError k) = quote k"

text \<open>Python's \<^verbatim>\<open>sub in s\<close> on strings: \<open>sub\<close> occurs in \<open>s\<close> as a contiguous run.\<close>

definition str_contains :: "string \<Rightarrow> string \<Rightarrow> bool" where
  "str_contains sub s = sublist sub s"

section \<open>Drive state interpreter: \<open>NanoLibController.decode_status\<close>\<close>

text \<open>The dictionary \<open>state\<close> of \<open>decode_status\<close>, in the order it is written.\<close>

definition state :: "(string \<times> int list) list" where
  "state =
    [(''Not ready to switch on'', [0, 16, 32, 48, 128, 160, 144, 176]),
     (''Switch on disabled'', [64, 80, 96, 112, 192, 208, 224, 240]),
     (''Ready to switch on'', [33, 49, 161, 177]),
     (''Switched on'', [35, 51, 163, 179]),
     (''Operation Enabled'', [39, 55, 167, 183]),
     (''Quick stop active'', [7, 23, 135, 151]),
     (''Fault reaction active'', [15, 31, 47, 63, 143, 159, 175, 191]),
     (''Fault'', [8, 24, 40, 56, 136, 152, 168, 184])]"

text \<open>The subscript \<^verbatim>\<open>d[key]\<close>: a missing key raises \<open>KeyError\<close>.\<close>

definition getitem :: "(string \<times> 'v) list \<Rightarrow> string \<Rightarrow> exn + 'v" where
  "getitem d key = (case map_of d key of None \<Rightarrow> Inl (KeyError key) | Some v \<Rightarrow> Inr v)"

text \<open>
  One arm of the \<^verbatim>\<open>if ... elif ...\<close> chain: \<^verbatim>\<open>if status_word in state[key]: result = r\<close>,
  else the rest of the chain.
\<close>

definition elif_in :: "int \<Rightarrow> string \<Rightarrow> string \<Rightarrow> exn + string \<Rightarrow> exn + string" where
  "elif_in status_word key r rest =
     (case getitem state key of
        Inl e \<Rightarrow> Inl e
      | Inr values \<Rightarrow> if status_word \<in> set values then Inr r else rest)"

definition decode_status :: "int \<Rightarrow> exn + string" where
  "decode_status status_word0 =
    (let filter_mask = 255;
         status_word = status_word0 AND filter_mask
     in elif_in status_word ''Not ready to switch on'' ''Not ready to switch on''
       (elif_in status_word ''Switch on disabled'' ''Switch on disabled''
       (elif_in status_word ''Ready to switch on'' ''Ready to switch on''
       (elif_in status_word ''Switched on'' ''Switched on''
       (elif_in status_word ''Operation Enabled'' ''Operation Enabled''
       (elif_in status_word ''Quick stop active'' ''Quick stop active''
       (elif_in status_word ''Fault reaction active'' ''Fault reaction active''
       (elif_in status_word ''Fault'' ''Fault''
       (Inr ''Cannot determine controller state'')))))))))"

section \<open>Operating mode interpreter: \<open>NanoLibController.decode_mode\<close>\<close>

definition decode_mode :: "int \<Rightarrow> string" where
  "decode_mode mode =
    (if mode = -2 then ''Auto setup''
     else if mode = -1 then ''Clock-direction mode''
     else if mode = 0 then ''No mode change/no mode assigned''
     else if mode = 1 then ''Profile Position Mode''
     else if mode = 2 then ''Velocity Mode''
     else if mode = 3 then ''Profile Velocity Mode''
     else if mode = 4 then ''Profile Torque Mode''
     else if mode = 5 then ''Reserved''
     else if mode = 6 then ''Homing Mode''
     else ''Error not able to determine mode'')"

section \<open>The specification's tables\<close>

text \<open>
  The enumerations of the specification's data model, the strings the program uses for
  them, and the table of section 4.1 written out row by row as the specification gives it.
\<close>

datatype DriveState =
    NotReadyToSwitchOn | SwitchOnDisabled | ReadyToSwitchOn | SwitchedOn
  | OperationEnabled | QuickStopActive | FaultReactionActive | Fault | UnknownState

fun state_label :: "DriveState \<Rightarrow> string" where
  "state_label NotReadyToSwitchOn = ''Not ready to switch on''"
| "state_label SwitchOnDisabled = ''Switch on disabled''"
| "state_label ReadyToSwitchOn = ''Ready to switch on''"
| "state_label SwitchedOn = ''Switched on''"
| "state_label OperationEnabled = ''Operation Enabled''"
| "state_label QuickStopActive = ''Quick stop active''"
| "state_label FaultReactionActive = ''Fault reaction active''"
| "state_label Fault = ''Fault''"
| "state_label UnknownState = ''Cannot determine controller state''"

definition spec_status_table :: "(DriveState \<times> int list) list" where
  "spec_status_table =
    [(NotReadyToSwitchOn, [0, 16, 32, 48, 128, 160, 144, 176]),
     (SwitchOnDisabled, [64, 80, 96, 112, 192, 208, 224, 240]),
     (ReadyToSwitchOn, [33, 49, 161, 177]),
     (SwitchedOn, [35, 51, 163, 179]),
     (OperationEnabled, [39, 55, 167, 183]),
     (QuickStopActive, [7, 23, 135, 151]),
     (FaultReactionActive, [15, 31, 47, 63, 143, 159, 175, 191]),
     (Fault, [8, 24, 40, 56, 136, 152, 168, 184])]"

datatype OperatingMode =
    AutoSetup | ClockDirection | NoChange | ProfilePosition | Velocity
  | ProfileVelocity | ProfileTorque | Reserved | Homing | UnknownMode

fun mode_label :: "OperatingMode \<Rightarrow> string" where
  "mode_label AutoSetup = ''Auto setup''"
| "mode_label ClockDirection = ''Clock-direction mode''"
| "mode_label NoChange = ''No mode change/no mode assigned''"
| "mode_label ProfilePosition = ''Profile Position Mode''"
| "mode_label Velocity = ''Velocity Mode''"
| "mode_label ProfileVelocity = ''Profile Velocity Mode''"
| "mode_label ProfileTorque = ''Profile Torque Mode''"
| "mode_label Reserved = ''Reserved''"
| "mode_label Homing = ''Homing Mode''"
| "mode_label UnknownMode = ''Error not able to determine mode''"

text \<open>
  The \<^verbatim>\<open>if ... elif ...\<close> chain of \<open>decode_status\<close> run over the rows of a table in the
  order given: the key of the first row whose value list holds the masked value, the
  fallback string when no row does.
\<close>

fun first_match :: "(string \<times> int list) list \<Rightarrow> int \<Rightarrow> string" where
  "first_match [] m = ''Cannot determine controller state''"
| "first_match ((key, vs) # rows) m = (if m \<in> set vs then key else first_match rows m)"

section \<open>Bus selection: \<open>NanoLibController.select_bus\<close>\<close>

text \<open>What the script reads of a \<open>BusHardwareId\<close>: its name and its protocol tag.\<close>

record BusHardwareId =
  getName :: string
  getProtocol :: string

text \<open>
  The local \<open>nanotec_vcp\<close> starts as the empty string and is overwritten with an index,
  so it holds either a string or an integer.  \<^verbatim>\<open>nanotec_vcp == ''\<close> is true only for the
  empty string: an integer, \<open>0\<close> included, never equals a string.
\<close>

datatype pyval = PyStr string | PyInt nat

fun select_bus_loop :: "BusHardwareId list \<Rightarrow> nat \<Rightarrow> pyval \<Rightarrow> nat \<times> pyval" where
  "select_bus_loop [] i nanotec_vcp = (i, nanotec_vcp)"
| "select_bus_loop (bus_hardware # bus_hardwares) i nanotec_vcp =
     select_bus_loop bus_hardwares (i + 1)
       (if str_contains ''Nanotec VCP'' (getName bus_hardware) then PyInt i else nanotec_vcp)"

definition select_bus :: "BusHardwareId list \<Rightarrow> exn + pyval" where
  "select_bus bus_hardwares =
    (let (i, nanotec_vcp) = select_bus_loop bus_hardwares 0 (PyStr '''')
     in if nanotec_vcp = PyStr '''' then Inl (Exception ''No USB Nanotec Controller Found'')
        else Inr nanotec_vcp)"

section \<open>The gateway and the effects of the script\<close>

text \<open>
  An object-dictionary address, a device handle (opaque to the script) and the result
  objects of the library, read through \<open>hasError()\<close>, \<open>getError()\<close> and \<open>getResult()\<close>.
\<close>

datatype OdIndex = OdIndex nat nat

type_synonym DeviceHandle = nat

datatype nl_result = Result (hasError: bool) (getError: string) (getResult: int)

text \<open>
  What a run does to the outside world, in the order it does it: the calls made on the
  library's accessor, the waits and the lines printed.
\<close>

datatype event =
    ReadNumber DeviceHandle OdIndex
  | WriteNumber DeviceHandle int OdIndex nat
  | DisconnectDevice DeviceHandle
  | Sleep nat
  | Print string

text \<open>
  The library is outside the script: a run is determined by the results the accessor
  hands back, call after call.  The gateway is that stream of results; each accessor call
  takes the head and leaves the tail.  A computation maps the gateway to its outcome (an
  exception or a value), the events it caused and the gateway that is left.
\<close>

type_synonym gateway = "nl_result stream"

type_synonym 'a io = "gateway \<Rightarrow> (exn + 'a) \<times> event list \<times> gateway"

definition io_return :: "'a \<Rightarrow> 'a io" where
  "io_return x = (\<lambda>g. (Inr x, [], g))"

definition io_raise :: "exn \<Rightarrow> 'a io" where
  "io_raise e = (\<lambda>g. (Inl e, [], g))"

definition io_bind :: "'a io \<Rightarrow> ('a \<Rightarrow> 'b io) \<Rightarrow> 'b io" where
  "io_bind m f = (\<lambda>g.
     case m g of
       (Inl e, evs, g') \<Rightarrow> (Inl e, evs, g')
     | (Inr x, evs, g') \<Rightarrow> (case f x g' of (r, evs', g'') \<Rightarrow> (r, evs @ evs', g'')))"

definition io_then :: "'a io \<Rightarrow> 'b io \<Rightarrow> 'b io" where
  "io_then m m' = io_bind m (\<lambda>_. m')"

text \<open>A pure computation that may raise, run inside the script.\<close>

definition io_lift :: "exn + 'a \<Rightarrow> 'a io" where
  "io_lift r = (case r of Inl e \<Rightarrow> io_raise e | Inr x \<Rightarrow> io_return x)"

text \<open>A \<^verbatim>\<open>for\<close> loop over a list, threading the variables the body assigns.\<close>

fun for_in :: "'a list \<Rightarrow> ('a \<Rightarrow> 's \<Rightarrow> 's io) \<Rightarrow> 's \<Rightarrow> 's io" where
  "for_in [] body s = io_return s"
| "for_in (x # xs) body s = io_bind (body x s) (for_in xs body)"

definition range :: "nat \<Rightarrow> nat list" where
  "range n = [0..<n]"

subsection \<open>The accessor's calls, \<open>sleep\<close> and \<open>print\<close>\<close>

definition readNumber :: "DeviceHandle \<Rightarrow> OdIndex \<Rightarrow> nl_result io" where
  "readNumber device_handle od_index = (\<lambda>g. (Inr (shd g), [ReadNumber device_handle od_index], stl g))"

definition writeNumber :: "DeviceHandle \<Rightarrow> int \<Rightarrow> OdIndex \<Rightarrow> nat \<Rightarrow> nl_result io" where
  "writeNumber device_handle v od_index bit_length =
     (\<lambda>g. (Inr (shd g), [WriteNumber device_handle v od_index bit_length], stl g))"

definition disconnectDevice :: "DeviceHandle \<Rightarrow> nl_result io" where
  "disconnectDevice device_handle = (\<lambda>g. (Inr (shd g), [DisconnectDevice device_handle], stl g))"

definition sleep :: "nat \<Rightarrow> unit io" where
  "sleep secs = (\<lambda>g. (Inr (), [Sleep secs], g))"

definition print :: "string \<Rightarrow> unit io" where
  "print s = (\<lambda>g. (Inr (), [Print s], g))"

subsection \<open>Formatting integers\<close>

definition digit_char :: "nat \<Rightarrow> char" where
  "digit_char d = char_of (48 + d)"

fun str_nat :: "nat \<Rightarrow> string" where
  "str_nat n = (if n < 10 then [digit_char n] else str_nat (n div 10) @ [digit_char (n mod 10)])"

fun bin_nat :: "nat \<Rightarrow> string" where
  "bin_nat n = (if n < 2 then [digit_char n] else bin_nat (n div 2) @ [digit_char (n mod 2)])"

declare str_nat.simps [simp del]
declare bin_nat.simps [simp del]

text \<open>\<^verbatim>\<open>str(i)\<close> and \<^verbatim>\<open>format(i, 'b')\<close> for an integer \<open>i\<close>.\<close>

definition str_int :: "int \<Rightarrow> string" where
  "str_int i = (if i < 0 then ''-'' @ str_nat (nat (- i)) else str_nat (nat i))"

definition format_b :: "int \<Rightarrow> string" where
  "format_b i = (if i < 0 then ''-'' @ bin_nat (nat (- i)) else bin_nat (nat i))"

subsection \<open>\<open>read_number\<close>, \<open>write_number\<close>, \<open>disconnect_device\<close>\<close>

text \<open>
  Both \<open>read_number\<close> and \<open>write_number\<close> build the message of their exception with
  \<^verbatim>\<open>self.create_error_message(...)\<close>.  The class \<open>NanoLibController\<close> has no base class
  and defines no attribute of that name, so evaluating \<^verbatim>\<open>self.create_error_message\<close>
  raises \<open>AttributeError\<close>: the arguments are never looked at and \<^verbatim>\<open>Exception(...)\<close> is
  never constructed.
\<close>

definition create_error_message :: "string \<Rightarrow> DeviceHandle \<Rightarrow> OdIndex \<Rightarrow> string \<Rightarrow> string io" where
  "create_error_message function device_handle od_index result_error_text =
     io_raise (AttributeError ''NanoLibController'' ''create_error_message'')"

definition read_number :: "DeviceHandle \<Rightarrow> OdIndex \<Rightarrow> int io" where
  "read_number device_handle od_index =
     io_bind (readNumber device_handle od_index) (\<lambda>result.
       if hasError result then
         io_bind (create_error_message ''read_number'' device_handle od_index (getError result))
           (\<lambda>msg. io_raise (Exception msg))
       else io_return (getResult result))"

definition write_number :: "DeviceHandle \<Rightarrow> int \<Rightarrow> OdIndex \<Rightarrow> nat \<Rightarrow> unit io" where
  "write_number device_handle v od_index bit_length =
     io_bind (writeNumber device_handle v od_index bit_length) (\<lambda>result.
       if hasError result then
         io_bind (create_error_message ''write_number'' device_handle od_index (getError result))
           (\<lambda>msg. io_raise (Exception msg))
       else io_return ())"

definition disconnect_device :: "DeviceHandle \<Rightarrow> unit io" where
  "disconnect_device device_handle =
     io_bind (disconnectDevice device_handle) (\<lambda>result.
       if hasError result then
         io_raise (Exception (''Error: disconnectDevice() - '' @ getError result))
       else io_return ())"

section \<open>Motion sequencer: the script from the first status read on\<close>

text \<open>One pass of the body of \<^verbatim>\<open>for x in range(4)\<close>; it returns the new \<open>count\<close>.\<close>

definition move_cycle :: "DeviceHandle \<Rightarrow> nat \<Rightarrow> int \<Rightarrow> int io" where
  "move_cycle device_handle x count =
     io_then (write_number device_handle 1000 (OdIndex 0x607A 0x00) 32)
    (io_then (write_number device_handle 0b11111 (OdIndex 0x6040 0x00) 16)
    (io_then (write_number device_handle 0b1111 (OdIndex 0x6040 0x00) 16)
    (io_then (sleep 2)
    (io_then (write_number device_handle 0 (OdIndex 0x607A 0x00) 32)
    (io_then (write_number device_handle 0b11111 (OdIndex 0x6040 0x00) 16)
    (io_then (write_number device_handle 0b1111 (OdIndex 0x6040 0x00) 16)
    (io_then (sleep 2)
    (io_then (print (str_int count))
    (io_return (count + 1))))))))))"

text \<open>
  The script from the read of the status word to the final \<open>disconnect_device\<close>, for the
  device handle obtained by the connection steps before it.
\<close>

definition main_sequence :: "DeviceHandle \<Rightarrow> unit io" where
  "main_sequence device_handle =
     io_bind (read_number device_handle (OdIndex 0x6041 0x00)) (\<lambda>status_word.
     io_bind (io_lift (decode_status status_word)) (\<lambda>state.
     io_then (print (CHR 0x0A # ''Current controller state: '' @ state))
    (io_then (write_number device_handle 1 (OdIndex 0x6060 0x00) 8)
    (io_bind (read_number device_handle (OdIndex 0x6061 0x00)) (\<lambda>mode.
     io_bind (io_return (decode_mode mode)) (\<lambda>mode.
     io_then (print (''Controller mode: '' @ mode))
    (io_bind (read_number device_handle (OdIndex 0x6040 0x00)) (\<lambda>control_word.
     io_then (print (str_int control_word))
    (io_then (print (format_b control_word))
    (io_then (write_number device_handle 6 (OdIndex 0x6040 0x00) 16)
    (io_then (sleep 2)
    (io_then (write_number device_handle 7 (OdIndex 0x6040 0x00) 16)
    (io_then (sleep 2)
    (io_then (write_number device_handle 15 (OdIndex 0x6040 0x00) 16)
    (io_bind (read_number device_handle (OdIndex 0x6040 0x00)) (\<lambda>control_word.
     io_then (print (str_int control_word))
    (io_then (print (format_b control_word))
    (io_bind (read_number device_handle (OdIndex 0x6041 0x00)) (\<lambda>status_word.
     io_then (print (format_b status_word))
    (io_bind (io_lift (decode_status status_word)) (\<lambda>state.
     io_then (print (CHR 0x0A # ''Current controller state: '' @ state))
    (io_bind (for_in (range 4) (move_cycle device_handle) 1) (\<lambda>count.
     disconnect_device device_handle)))))))))))))))))))))))"

section \<open>Observing a run\<close>

definition outcome :: "'a io \<Rightarrow> gateway \<Rightarrow> exn + 'a" where
  "outcome m g = fst (m g)"

definition events :: "'a io \<Rightarrow> gateway \<Rightarrow> event list" where
  "events m g = fst (snd (m g))"

text \<open>The events that are calls on the gateway, and among them the register writes.\<close>

fun is_call :: "event \<Rightarrow> bool" where
  "is_call (ReadNumber h od) = True"
| "is_call (WriteNumber h v od bl) = True"
| "is_call (DisconnectDevice h) = True"
| "is_call (Sleep n) = False"
| "is_call (Print s) = False"

fun is_write :: "event \<Rightarrow> bool" where
  "is_write (WriteNumber h v od bl) = True"
| "is_write (ReadNumber h od) = False"
| "is_write (DisconnectDevice h) = False"
| "is_write (Sleep n) = False"
| "is_write (Print s) = False"

text \<open>A write to the target-position register \<open>607A:00\<close>.\<close>

fun is_target_write :: "event \<Rightarrow> bool" where
  "is_target_write (WriteNumber h v (OdIndex i s) bl) = (i = 0x607A \<and> s = 0)"
| "is_target_write (ReadNumber h od) = False"
| "is_target_write (DisconnectDevice h) = False"
| "is_target_write (Sleep n) = False"
| "is_target_write (Print s) = False"

definition calls_of :: "event list \<Rightarrow> event list" where
  "calls_of evs = filter is_call evs"

definition writes_of :: "event list \<Rightarrow> event list" where
  "writes_of evs = filter is_write evs"

text \<open>The first \<open>n\<close> results the gateway hands back are all successes.\<close>

fun ok_prefix :: "nat \<Rightarrow> gateway \<Rightarrow> bool" where
  "ok_prefix 0 g = True"
| "ok_prefix (Suc n) g = (\<not> hasError (shd g) \<and> ok_prefix n (stl g))"

text \<open>
  The events of one repetition of the move loop as the specification lists them: the
  target position, the controlword \<open>0b11111\<close> then \<open>0b1111\<close>, a wait of two seconds, the
  target position \<open>0\<close>, the same two controlwords and a wait; the script then prints
  \<open>count\<close>.
\<close>

definition cycle_events :: "DeviceHandle \<Rightarrow> int \<Rightarrow> event list" where
  "cycle_events h count =
    [WriteNumber h 1000 (OdIndex 0x607A 0) 32,
     WriteNumber h 0b11111 (OdIndex 0x6040 0) 16,
     WriteNumber h 0b1111 (OdIndex 0x6040 0) 16,
     Sleep 2,
     WriteNumber h 0 (OdIndex 0x607A 0) 32,
     WriteNumber h 0b11111 (OdIndex 0x6040 0) 16,
     WriteNumber h 0b1111 (OdIndex 0x6040 0) 16,
     Sleep 2,
     Print (str_int count)]"

text \<open>
  The events of the script before the move loop when every call succeeds; the lines
  printed show the values read.
\<close>

definition handshake_events :: "DeviceHandle \<Rightarrow> gateway \<Rightarrow> event list" where
  "handshake_events h g =
    [ReadNumber h (OdIndex 0x6041 0),
     Print (CHR 0x0A # ''Current controller state: '' @ first_match state (getResult (g !! 0) AND 255)),
     WriteNumber h 1 (OdIndex 0x6060 0) 8,
     ReadNumber h (OdIndex 0x6061 0),
     Print (''Controller mode: '' @ decode_mode (getResult (g !! 2))),
     ReadNumber h (OdIndex 0x6040 0),
     Print (str_int (getResult (g !! 3))),
     Print (format_b (getResult (g !! 3))),
     WriteNumber h 6 (OdIndex 0x6040 0) 16,
     Sleep 2,
     WriteNumber h 7 (OdIndex 0x6040 0) 16,
     Sleep 2,
     WriteNumber h 15 (OdIndex 0x6040 0) 16,
     ReadNumber h (OdIndex 0x6040 0),
     Print (str_int (getResult (g !! 7))),
     Print (format_b (getResult (g !! 7))),
     ReadNumber h (OdIndex 0x6041 0),
     Print (format_b (getResult (g !! 8))),
     Print (CHR 0x0A # ''Current controller state: '' @ first_match state (getResult (g !! 8) AND 255))]"

text \<open>
  A computation stops at the first failed gateway call: the gateway left is the one
  given less the results consumed, and when the result of a call made has an error that
  call is the last event and the outcome is an exception.
\<close>

definition fail_stop :: "'a io \<Rightarrow> bool" where
  "fail_stop m = (\<forall>g. case m g of (r, evs, g') \<Rightarrow>
     g' = sdrop (length (calls_of evs)) g \<and>
     (\<forall>i. i < length (calls_of evs) \<and> hasError (g !! i) \<longrightarrow>
        Suc i = length (calls_of evs) \<and> evs \<noteq> [] \<and> is_call (last evs) \<and> isl r))"

text \<open>
  Two gateways to run the script against: one whose every call succeeds (all reads
  return \<open>0x0027\<close>), and one whose sixth call, the write of controlword \<open>7\<close>, fails.
\<close>

definition always_ok :: gateway where
  "always_ok = sconst (Result False [] 0x0027)"

definition fails_on_switch_on :: gateway where
  "fails_on_switch_on =
     Result False [] 0x0040 ## Result False [] 0 ## Result False [] 1 ## Result False [] 0
     ## Result False [] 0 ## Result True ''SDO abort'' 0 ## always_ok"

section \<open>Properties of the interpreters\<close>

lemma getitem_state:
  "getitem state ''Not ready to switch on'' = Inr [0, 16, 32, 48, 128, 160, 144, 176]"
  "getitem state ''Switch on disabled'' = Inr [64, 80, 96, 112, 192, 208, 224, 240]"
  "getitem state ''Ready to switch on'' = Inr [33, 49, 161, 177]"
  "getitem state ''Switched on'' = Inr [35, 51, 163, 179]"
  "getitem state ''Operation Enabled'' = Inr [39, 55, 167, 183]"
  "getitem state ''Quick stop active'' = Inr [7, 23, 135, 151]"
  "getitem state ''Fault reaction active'' = Inr [15, 31, 47, 63, 143, 159, 175, 191]"
  "getitem state ''Fault'' = Inr [8, 24, 40, 56, 136, 152, 168, 184]"
  by (simp_all add: getitem_def state_def)

lemma elif_in_Inr:
  "getitem state key = Inr vs \<Longrightarrow>
   elif_in m key r (Inr rest) = Inr (if m \<in> set vs then r else rest)"
  by (simp add: elif_in_def)

lemma first_match_state:
  "first_match state m =
    (if m \<in> set [0, 16, 32, 48, 128, 160, 144, 176] then ''Not ready to switch on''
     else if m \<in> set [64, 80, 96, 112, 192, 208, 224, 240] then ''Switch on disabled''
     else if m \<in> set [33, 49, 161, 177] then ''Ready to switch on''
     else if m \<in> set [35, 51, 163, 179] then ''Switched on''
     else if m \<in> set [39, 55, 167, 183] then ''Operation Enabled''
     else if m \<in> set [7, 23, 135, 151] then ''Quick stop active''
     else if m \<in> set [15, 31, 47, 63, 143, 159, 175, 191] then ''Fault reaction active''
     else if m \<in> set [8, 24, 40, 56, 136, 152, 168, 184] then ''Fault''
     else ''Cannot determine controller state'')"
  by (simp only: state_def first_match.simps)

lemma decode_status_first_match: "decode_status x = Inr (first_match state (x AND 255))"
  by (simp only: decode_status_def Let_def first_match_state
        elif_in_Inr[OF getitem_state(8)] elif_in_Inr[OF getitem_state(7)]
        elif_in_Inr[OF getitem_state(6)] elif_in_Inr[OF getitem_state(5)]
        elif_in_Inr[OF getitem_state(4)] elif_in_Inr[OF getitem_state(3)]
        elif_in_Inr[OF getitem_state(2)] elif_in_Inr[OF getitem_state(1)])

lemma first_match_hit:
  "(k, vs) \<in> set rows \<Longrightarrow> m \<in> set vs \<Longrightarrow>
   \<forall>r' \<in> set rows. m \<in> set (snd r') \<longrightarrow> fst r' = k \<Longrightarrow> first_match rows m = k"
proof (induction rows)
  case Nil
  then show ?case by simp
next
  case (Cons r rows)
  obtain k0 vs0 where r: "r = (k0, vs0)" by (cases r)
  show ?case
  proof (cases "m \<in> set vs0")
    case True
    have "m \<in> set (snd r) \<longrightarrow> fst r = k" using Cons.prems(3) by (simp del: split_paired_All)
    then have "k0 = k" using True r by simp
    then show ?thesis using True r by simp
  next
    case False
    have in_rows: "(k, vs) \<in> set rows"
    proof -
      have "(k, vs) \<noteq> r" using False Cons.prems(2) r by blast
      then show ?thesis using Cons.prems(1) by simp
    qed
    have rest: "\<forall>r' \<in> set rows. m \<in> set (snd r') \<longrightarrow> fst r' = k"
      using Cons.prems(3) by (meson list.set_intros(2))
    have "first_match rows m = k" by (rule Cons.IH[OF in_rows Cons.prems(2) rest])
    then show ?thesis using False r by simp
  qed
qed

lemma first_match_miss:
  "\<forall>r \<in> set rows. m \<notin> set (snd r) \<Longrightarrow> first_match rows m = ''Cannot determine controller state''"
  by (induction rows) (auto split: prod.splits)

lemma rows_unique:
  "distinct (concat (map snd rows)) \<Longrightarrow> r \<in> set rows \<Longrightarrow> r' \<in> set rows \<Longrightarrow>
   m \<in> set (snd r) \<Longrightarrow> m \<in> set (snd r') \<Longrightarrow> r = r'"
  by (induction rows) auto

lemma state_distinct: "distinct (concat (map snd state))"
  by (simp add: state_def)

lemma state_unique_key:
  assumes "(k, vs) \<in> set state" "m \<in> set vs"
  shows "\<forall>r' \<in> set state. m \<in> set (snd r') \<longrightarrow> fst r' = k"
proof
  fix r' assume r': "r' \<in> set state"
  show "m \<in> set (snd r') \<longrightarrow> fst r' = k"
  proof
    assume "m \<in> set (snd r')"
    then have "(k, vs) = r'"
      using rows_unique[OF state_distinct assms(1) r', of m] assms(2) by simp
    then show "fst r' = k" by auto
  qed
qed

lemma first_match_any_order:
  assumes "set rows = set state"
  shows "first_match rows m = first_match state m"
proof (cases "\<exists>r \<in> set state. m \<in> set (snd r)")
  case True
  then obtain k vs where kv: "(k, vs) \<in> set state" "m \<in> set vs" by auto
  have u: "\<forall>r' \<in> set state. m \<in> set (snd r') \<longrightarrow> fst r' = k"
    by (rule state_unique_key[OF kv])
  have a: "first_match state m = k" by (rule first_match_hit[OF kv u])
  have kv': "(k, vs) \<in> set rows" using kv(1) assms by simp
  have u': "\<forall>r' \<in> set rows. m \<in> set (snd r') \<longrightarrow> fst r' = k" using u assms by simp
  have b: "first_match rows m = k" by (rule first_match_hit[OF kv' kv(2) u'])
  show ?thesis using a b by simp
next
  case False
  then have n: "\<forall>r \<in> set state. m \<notin> set (snd r)" by simp
  have n': "\<forall>r \<in> set rows. m \<notin> set (snd r)" using n assms by simp
  show ?thesis using first_match_miss[OF n] first_match_miss[OF n'] by simp
qed

lemma state_spec_table: "state = map (\<lambda>(s, vs). (state_label s, vs)) spec_status_table"
  by (simp add: state_def spec_status_table_def)

lemma spec_table_hit:
  assumes "(s, vs) \<in> set spec_status_table" "m \<in> set vs"
  shows "first_match state m = state_label s"
proof -
  have kv: "(state_label s, vs) \<in> set state"
    unfolding state_spec_table using assms(1) by force
  show ?thesis
    by (rule first_match_hit[OF kv assms(2) state_unique_key[OF kv assms(2)]])
qed

lemma spec_table_miss:
  assumes "\<forall>row \<in> set spec_status_table. m \<notin> set (snd row)"
  shows "first_match state m = state_label UnknownState"
proof -
  have "\<forall>r \<in> set state. m \<notin> set (snd r)"
    unfolding state_spec_table using assms by force
  then show ?thesis using first_match_miss by simp
qed

lemma m255: "(255::int) = mask 8" by (simp add: mask_eq_exp_minus_1)

lemma hi: "take_bit 8 (0xFF00::int) = 0" by simp

lemma or_high: "(x OR 0xFF00) AND 255 = x AND (255::int)"
  unfolding m255 by (simp only: take_bit_eq_mask[symmetric] take_bit_or hi or.right_neutral)

lemma and_idem: "(x AND 255) AND 255 = x AND (255::int)"
  by (simp only: and.assoc and.idem)

section \<open>Properties of \<open>select_bus\<close>\<close>

lemma select_bus_loop_count: "fst (select_bus_loop hs i v) = i + length hs"
  by (induction hs arbitrary: i v) simp_all

lemma select_bus_loop_none:
  "\<forall>b \<in> set hs. \<not> str_contains ''Nanotec VCP'' (getName b) \<Longrightarrow> snd (select_bus_loop hs i v) = v"
  by (induction hs arbitrary: i v) simp_all

lemma select_bus_loop_last:
  "j < length hs \<Longrightarrow> str_contains ''Nanotec VCP'' (getName (hs ! j)) \<Longrightarrow>
   \<forall>k. j < k \<and> k < length hs \<longrightarrow> \<not> str_contains ''Nanotec VCP'' (getName (hs ! k)) \<Longrightarrow>
   snd (select_bus_loop hs i v) = PyInt (i + j)"
proof (induction hs arbitrary: i v j)
  case Nil
  then show ?case by simp
next
  case (Cons h t)
  show ?case
  proof (cases j)
    case 0
    have "\<forall>b \<in> set t. \<not> str_contains ''Nanotec VCP'' (getName b)"
    proof
      fix b assume "b \<in> set t"
      then obtain n where n: "n < length t" "t ! n = b" by (auto simp: in_set_conv_nth)
      have "j < Suc n \<and> Suc n < length (h # t)" using 0 n(1) by simp
      then have "\<not> str_contains ''Nanotec VCP'' (getName ((h # t) ! Suc n))"
        using Cons.prems(3) by blast
      then show "\<not> str_contains ''Nanotec VCP'' (getName b)" using n(2) by simp
    qed
    then have "snd (select_bus_loop t (i + 1) (PyInt i)) = PyInt i"
      by (rule select_bus_loop_none)
    then show ?thesis using 0 Cons.prems(2) by simp
  next
    case (Suc j')
    have a: "j' < length t" using Cons.prems(1) Suc by simp
    have b: "str_contains ''Nanotec VCP'' (getName (t ! j'))" using Cons.prems(2) Suc by simp
    have c: "\<forall>k. j' < k \<and> k < length t \<longrightarrow> \<not> str_contains ''Nanotec VCP'' (getName (t ! k))"
    proof (intro allI impI)
      fix k assume "j' < k \<and> k < length t"
      then have "j < Suc k \<and> Suc k < length (h # t)" using Suc by simp
      then have "\<not> str_contains ''Nanotec VCP'' (getName ((h # t) ! Suc k))"
        using Cons.prems(3) by blast
      then show "\<not> str_contains ''Nanotec VCP'' (getName (t ! k))" by simp
    qed
    have "snd (select_bus_loop t (i + 1) w) = PyInt (i + 1 + j')" for w
      by (rule Cons.IH[OF a b c])
    then show ?thesis using Suc by simp
  qed
qed

lemma contains_examples:
  "str_contains ''Nanotec VCP'' ''USB Bus (Nanotec VCP)''"
  "str_contains ''Nanotec VCP'' ''Nanotec VCP''"
  "\<not> str_contains ''Nanotec VCP'' ''IXXAT''"
  "\<not> str_contains ''Nanotec VCP'' ''Serial Port (COM1)''"
  by (simp_all add: str_contains_def sublist_code)

section \<open>Evaluating the script\<close>

lemma range4: "range 4 = [0, 1, 2, 3]"
  by (simp add: range_def upt_rec)

lemma write_number_ok:
  "\<not> hasError (shd g) \<Longrightarrow> write_number h v od bl g = (Inr (), [WriteNumber h v od bl], stl g)"
  by (simp add: write_number_def writeNumber_def io_bind_def io_return_def)

lemma write_number_fail:
  "hasError (shd g) \<Longrightarrow> write_number h v od bl g =
     (Inl (AttributeError ''NanoLibController'' ''create_error_message''), [WriteNumber h v od bl], stl g)"
  by (simp add: write_number_def writeNumber_def io_bind_def io_raise_def create_error_message_def)

lemma read_number_ok:
  "\<not> hasError (shd g) \<Longrightarrow> read_number h od g = (Inr (getResult (shd g)), [ReadNumber h od], stl g)"
  by (simp add: read_number_def readNumber_def io_bind_def io_return_def)

lemma read_number_fail:
  "hasError (shd g) \<Longrightarrow> read_number h od g =
     (Inl (AttributeError ''NanoLibController'' ''create_error_message''), [ReadNumber h od], stl g)"
  by (simp add: read_number_def readNumber_def io_bind_def io_raise_def create_error_message_def)

lemma disconnect_device_ok:
  "\<not> hasError (shd g) \<Longrightarrow> disconnect_device h g = (Inr (), [DisconnectDevice h], stl g)"
  by (simp add: disconnect_device_def disconnectDevice_def io_bind_def io_return_def)

lemma disconnect_device_fail:
  "hasError (shd g) \<Longrightarrow> disconnect_device h g =
     (Inl (Exception (''Error: disconnectDevice() - '' @ getError (shd g))), [DisconnectDevice h], stl g)"
  by (simp add: disconnect_device_def disconnectDevice_def io_bind_def io_raise_def)

lemma io_bind_Inr: "m g = (Inr x, evs, g') \<Longrightarrow> io_bind m f g = (case f x g' of (r, evs', g'') \<Rightarrow> (r, evs @ evs', g''))"
  by (simp add: io_bind_def)

lemma io_bind_Inl: "m g = (Inl e, evs, g') \<Longrightarrow> io_bind m f g = (Inl e, evs, g')"
  by (simp add: io_bind_def)

lemma decode_status_lift:
  "io_lift (decode_status x) g = (Inr (first_match state (x AND 255)), [], g)"
  by (simp add: decode_status_first_match io_lift_def io_return_def)

lemma ok_prefix_numeral:
  "ok_prefix (numeral k) g = (\<not> hasError (shd g) \<and> ok_prefix (pred_numeral k) (stl g))"
  by (simp add: numeral_eq_Suc)

lemma sdrop_numeral: "sdrop (numeral k) g = sdrop (pred_numeral k) (stl g)"
  by (simp add: numeral_eq_Suc)

lemma ok_prefix_1: "ok_prefix 1 g = (\<not> hasError (shd g))"
  by simp

lemma move_cycle_ok:
  assumes "ok_prefix 6 g"
  shows "move_cycle h x count g = (Inr (count + 1), cycle_events h count, sdrop 6 g)"
  using assms
  by (simp add: ok_prefix_numeral sdrop_numeral move_cycle_def cycle_events_def io_then_def io_bind_def
      write_number_ok sleep_def print_def io_return_def)


lemma snth_numeral: "g !! numeral k = stl g !! pred_numeral k"
  by (simp add: numeral_eq_Suc)

lemma main_sequence_ok:
  assumes "ok_prefix 34 g"
  shows "main_sequence h g =
    (Inr (), handshake_events h g @ cycle_events h 1 @ cycle_events h 2 @ cycle_events h 3
       @ cycle_events h 4 @ [DisconnectDevice h], sdrop 34 g)"
  using assms
  by (simp add: ok_prefix_numeral sdrop_numeral snth_numeral main_sequence_def handshake_events_def
      range4 io_then_def io_bind_def decode_status_lift
      write_number_ok read_number_ok disconnect_device_ok move_cycle_ok sleep_def print_def io_return_def)

section \<open>Stopping at the first failed call\<close>

lemma fail_stopI:
  assumes "\<And>g r evs g'. m g = (r, evs, g') \<Longrightarrow>
     g' = sdrop (length (calls_of evs)) g \<and>
     (\<forall>i. i < length (calls_of evs) \<and> hasError (g !! i) \<longrightarrow>
        Suc i = length (calls_of evs) \<and> evs \<noteq> [] \<and> is_call (last evs) \<and> isl r)"
  shows "fail_stop m"
  unfolding fail_stop_def using assms by (auto split: prod.splits)

lemma fail_stopD:
  assumes "fail_stop m" "m g = (r, evs, g')"
  shows "g' = sdrop (length (calls_of evs)) g"
    and "i < length (calls_of evs) \<Longrightarrow> hasError (g !! i) \<Longrightarrow>
        Suc i = length (calls_of evs) \<and> evs \<noteq> [] \<and> is_call (last evs) \<and> isl r"
proof -
  have c: "case m g of (r, evs, g') \<Rightarrow>
     g' = sdrop (length (calls_of evs)) g \<and>
     (\<forall>i. i < length (calls_of evs) \<and> hasError (g !! i) \<longrightarrow>
        Suc i = length (calls_of evs) \<and> evs \<noteq> [] \<and> is_call (last evs) \<and> isl r)"
    using assms(1) unfolding fail_stop_def by (rule spec)
  show "g' = sdrop (length (calls_of evs)) g" using c assms(2) by simp
  show "i < length (calls_of evs) \<Longrightarrow> hasError (g !! i) \<Longrightarrow>
        Suc i = length (calls_of evs) \<and> evs \<noteq> [] \<and> is_call (last evs) \<and> isl r"
    using c assms(2) by simp
qed

lemma fail_stop_return: "fail_stop (io_return x)"
  by (rule fail_stopI) (simp add: io_return_def calls_of_def)

lemma fail_stop_raise: "fail_stop (io_raise e)"
  by (rule fail_stopI) (simp add: io_raise_def calls_of_def)

lemma fail_stop_lift: "fail_stop (io_lift r)"
  by (cases r) (simp_all add: io_lift_def fail_stop_return fail_stop_raise)

lemma fail_stop_sleep: "fail_stop (sleep n)"
  by (rule fail_stopI) (auto simp: sleep_def calls_of_def)

lemma fail_stop_print: "fail_stop (print s)"
  by (rule fail_stopI) (auto simp: print_def calls_of_def)

lemma fail_stop_read_number: "fail_stop (read_number h od)"
proof (rule fail_stopI)
  fix g r evs g' assume a: "read_number h od g = (r, evs, g')"
  show "g' = sdrop (length (calls_of evs)) g \<and>
     (\<forall>i. i < length (calls_of evs) \<and> hasError (g !! i) \<longrightarrow>
        Suc i = length (calls_of evs) \<and> evs \<noteq> [] \<and> is_call (last evs) \<and> isl r)"
  proof (cases "hasError (shd g)")
    case True
    then show ?thesis using a by (auto simp: read_number_fail calls_of_def)
  next
    case False
    then show ?thesis using a by (auto simp: read_number_ok calls_of_def)
  qed
qed

lemma fail_stop_write_number: "fail_stop (write_number h v od bl)"
proof (rule fail_stopI)
  fix g r evs g' assume a: "write_number h v od bl g = (r, evs, g')"
  show "g' = sdrop (length (calls_of evs)) g \<and>
     (\<forall>i. i < length (calls_of evs) \<and> hasError (g !! i) \<longrightarrow>
        Suc i = length (calls_of evs) \<and> evs \<noteq> [] \<and> is_call (last evs) \<and> isl r)"
  proof (cases "hasError (shd g)")
    case True
    then show ?thesis using a by (auto simp: write_number_fail calls_of_def)
  next
    case False
    then show ?thesis using a by (auto simp: write_number_ok calls_of_def)
  qed
qed

lemma fail_stop_disconnect_device: "fail_stop (disconnect_device h)"
proof (rule fail_stopI)
  fix g r evs g' assume a: "disconnect_device h g = (r, evs, g')"
  show "g' = sdrop (length (calls_of evs)) g \<and>
     (\<forall>i. i < length (calls_of evs) \<and> hasError (g !! i) \<longrightarrow>
        Suc i = length (calls_of evs) \<and> evs \<noteq> [] \<and> is_call (last evs) \<and> isl r)"
  proof (cases "hasError (shd g)")
    case True
    then show ?thesis using a by (auto simp: disconnect_device_fail calls_of_def)
  next
    case False
    then show ?thesis using a by (auto simp: disconnect_device_ok calls_of_def)
  qed
qed

lemma fail_stop_bind:
  fixes m :: "'a io" and f :: "'a \<Rightarrow> 'b io"
  assumes m: "fail_stop m" and f: "\<And>x. fail_stop (f x)"
  shows "fail_stop (io_bind m f)"
proof (rule fail_stopI)
  fix g r evs g' assume a: "io_bind m f g = (r, evs, g')"
  obtain r1 evs1 g1 where mg: "m g = (r1, evs1, g1)" by (cases "m g") auto
  note M = fail_stopD[OF m mg]
  show "g' = sdrop (length (calls_of evs)) g \<and>
     (\<forall>i. i < length (calls_of evs) \<and> hasError (g !! i) \<longrightarrow>
        Suc i = length (calls_of evs) \<and> evs \<noteq> [] \<and> is_call (last evs) \<and> isl r)"
  proof (cases r1)
    case (Inl e)
    then have "io_bind m f g = (Inl e, evs1, g1)" using mg by (simp add: io_bind_def)
    then have "r = Inl e" "evs = evs1" "g' = g1" using a by simp_all
    then show ?thesis using M Inl by auto
  next
    case (Inr x)
    obtain r2 evs2 g2 where fg: "f x g1 = (r2, evs2, g2)" by (cases "f x g1")
    note F = fail_stopD[OF f fg]
    have "io_bind m f g = (r2, evs1 @ evs2, g2)" using mg fg Inr by (simp add: io_bind_def)
    then have eq: "r = r2" "evs = evs1 @ evs2" "g' = g2" using a by simp_all
    let ?n1 = "length (calls_of evs1)" and ?n2 = "length (calls_of evs2)"
    have len: "length (calls_of evs) = ?n1 + ?n2" using eq(2) by (simp add: calls_of_def)
    have g2: "g' = sdrop (length (calls_of evs)) g"
      using F(1) M(1) eq(3) len by simp
    have "Suc i = length (calls_of evs) \<and> evs \<noteq> [] \<and> is_call (last evs) \<and> isl r"
      if i: "i < length (calls_of evs)" and e: "hasError (g !! i)" for i
    proof (cases "i < ?n1")
      case True
      then have "isl r1" using M(2)[OF True e] by blast
      then show ?thesis using Inr by simp
    next
      case False
      then have j: "i - ?n1 < ?n2" using i len by arith
      have "g1 !! (i - ?n1) = g !! i" using M(1) False by (simp add: sdrop_snth)
      then have "hasError (g1 !! (i - ?n1))" using e by simp
      then have "Suc (i - ?n1) = ?n2 \<and> evs2 \<noteq> [] \<and> is_call (last evs2) \<and> isl r2"
        using F(2)[OF j] by blast
      then show ?thesis using eq len False by auto
    qed
    then show ?thesis using g2 by blast
  qed
qed

lemma fail_stop_then: "fail_stop m \<Longrightarrow> fail_stop m' \<Longrightarrow> fail_stop (io_then m m')"
  unfolding io_then_def by (rule fail_stop_bind)

lemma fail_stop_for_in:
  assumes "\<And>x s. fail_stop (body x s)"
  shows "fail_stop (for_in xs body s)"
proof (induction xs arbitrary: s)
  case Nil
  show ?case by (simp add: fail_stop_return)
next
  case (Cons x xs)
  show ?case by (simp, rule fail_stop_bind, rule assms, rule Cons.IH)
qed

lemma fail_stop_move_cycle: "fail_stop (move_cycle h x count)"
  unfolding move_cycle_def
  by (intro fail_stop_then fail_stop_write_number fail_stop_sleep fail_stop_print fail_stop_return)

lemma fail_stop_main_sequence: "fail_stop (main_sequence h)"
  unfolding main_sequence_def
  by (intro fail_stop_then fail_stop_bind fail_stop_write_number fail_stop_read_number
      fail_stop_sleep fail_stop_print fail_stop_return fail_stop_lift fail_stop_for_in
      fail_stop_move_cycle fail_stop_disconnect_device)

section \<open>Runs against the example gateways\<close>

lemma always_ok_simps:
  "shd always_ok = Result False [] 0x0027" "stl always_ok = always_ok"
  by (simp_all add: always_ok_def)

lemma ok_prefix_always_ok: "ok_prefix n always_ok"
  by (induction n) (simp_all add: always_ok_simps)

lemma write_number_if:
  "write_number h v od bl g =
      (if hasError (shd g) then
         (Inl (AttributeError ''NanoLibController'' ''create_error_message''), [WriteNumber h v od bl], stl g)
       else (Inr (), [WriteNumber h v od bl], stl g))"
  by (simp add: write_number_ok write_number_fail)

lemma read_number_if:
  "read_number h od g =
      (if hasError (shd g) then
         (Inl (AttributeError ''NanoLibController'' ''create_error_message''), [ReadNumber h od], stl g)
       else (Inr (getResult (shd g)), [ReadNumber h od], stl g))"
  by (simp add: read_number_ok read_number_fail)

lemma move_cycle_prefix: "prefix (events (move_cycle h x count) g) (cycle_events h count)"
  by (simp add: events_def move_cycle_def cycle_events_def io_then_def io_bind_def write_number_if
        sleep_def print_def io_return_def)

lemma handshake_no_target: "takeWhile (\<lambda>e. \<not> is_target_write e) (handshake_events h g @ cycle_events h c @ rest)
   = handshake_events h g"
  by (simp add: handshake_events_def cycle_events_def)

lemma handshake_drop: "dropWhile (\<lambda>e. \<not> is_target_write e) (handshake_events h g @ cycle_events h c @ rest)
   = cycle_events h c @ rest"
  by (simp add: handshake_events_def cycle_events_def)

lemma writes_of_handshake:
  "writes_of (handshake_events h g) =
     [WriteNumber h 1 (OdIndex 0x6060 0) 8, WriteNumber h 6 (OdIndex 0x6040 0) 16,
      WriteNumber h 7 (OdIndex 0x6040 0) 16, WriteNumber h 15 (OdIndex 0x6040 0) 16]"
  by (simp add: handshake_events_def writes_of_def)

lemma digit_char_values:
  "digit_char 0 = CHR ''0''" "digit_char 1 = CHR ''1''" "digit_char 2 = CHR ''2''"
  "digit_char 3 = CHR ''3''" "digit_char 4 = CHR ''4''" "digit_char 5 = CHR ''5''"
  "digit_char 6 = CHR ''6''" "digit_char 7 = CHR ''7''" "digit_char 8 = CHR ''8''"
  "digit_char 9 = CHR ''9''"
  by code_simp+

lemma main_events_fail:
  "main_sequence h fails_on_switch_on =
    (Inl (AttributeError ''NanoLibController'' ''create_error_message''),
     [ReadNumber h (OdIndex 0x6041 0),
      Print (CHR 0x0A # ''Current controller state: Switch on disabled''),
      WriteNumber h 1 (OdIndex 0x6060 0) 8,
      ReadNumber h (OdIndex 0x6061 0),
      Print ''Controller mode: Profile Position Mode'',
      ReadNumber h (OdIndex 0x6040 0),
      Print ''0'',
      Print ''0'',
      WriteNumber h 6 (OdIndex 0x6040 0) 16,
      Sleep 2,
      WriteNumber h 7 (OdIndex 0x6040 0) 16],
     always_ok)"
proof -
  have a: "(0x40::int) AND 255 = 64" by simp
  have s: "first_match state 64 = ''Switch on disabled''" by (simp add: state_def)
  show ?thesis
    by (simp add: main_sequence_def fails_on_switch_on_def io_then_def io_bind_def
        decode_status_lift write_number_if read_number_if sleep_def print_def io_return_def
        a s decode_mode_def str_int_def format_b_def str_nat.simps bin_nat.simps digit_char_values)
qed

section \<open>Claims about the interpreters\<close>

text \<open>
  C1.  \<open>decode_status\<close> masks its input with \<open>0x00FF\<close> and returns the label of the row
  of the table of section 4.1 of the specification that lists the masked value, for
  every row and every value of it; when no row lists the masked value it returns the
  \<open>Unknown\<close> label.  It never raises.  The input ranges over all Python integers, the
  16-bit status words among them.
\<close>

theorem decode_status_spec_table:
  "((s, vs) \<in> set spec_status_table \<and> (x AND 0x00FF) \<in> set vs
      \<longrightarrow> decode_status x = Inr (state_label s)) \<and>
   ((\<forall>row \<in> set spec_status_table. (x AND 0x00FF) \<notin> set (snd row))
      \<longrightarrow> decode_status x = Inr (state_label UnknownState))"
  using spec_table_hit[of s vs "x AND 255"] spec_table_miss[of "x AND 255"]
  unfolding decode_status_first_match by blast

theorem decode_status_spec_table_witness:
  "(ReadyToSwitchOn, [33, 49, 161, 177]) \<in> set spec_status_table \<and>
   ((0x0021::int) AND 0x00FF) \<in> set [33, 49, 161, 177] \<and>
   decode_status 0x0021 = Inr ''Ready to switch on'' \<and>
   (Fault, [8, 24, 40, 56, 136, 152, 168, 184]) \<in> set spec_status_table \<and>
   ((0x1F08::int) AND 0x00FF) \<in> set [8, 24, 40, 56, 136, 152, 168, 184] \<and>
   decode_status 0x1F08 = Inr ''Fault'' \<and>
   (OperationEnabled, [39, 55, 167, 183]) \<in> set spec_status_table \<and>
   ((0x0027::int) AND 0x00FF) \<in> set [39, 55, 167, 183] \<and>
   decode_status 0x0027 = Inr ''Operation Enabled'' \<and>
   \<not> (\<exists>row \<in> set spec_status_table. ((0x0101::int) AND 0x00FF) \<in> set (snd row)) \<and>
   decode_status 0x0101 = Inr ''Cannot determine controller state''"
proof -
  have a: "(0x0021::int) AND 0x00FF = 33" "(0x1F08::int) AND 0x00FF = 8"
    "(0x0027::int) AND 0x00FF = 39" "(0x0101::int) AND 0x00FF = 1"
    by simp_all
  have r: "(ReadyToSwitchOn, [33, 49, 161, 177]) \<in> set spec_status_table"
    "(Fault, [8, 24, 40, 56, 136, 152, 168, 184]) \<in> set spec_status_table"
    "(OperationEnabled, [39, 55, 167, 183]) \<in> set spec_status_table"
    by (simp_all add: spec_status_table_def)
  have n: "\<forall>row \<in> set spec_status_table. ((0x0101::int) AND 0x00FF) \<notin> set (snd row)"
    unfolding a by (simp add: spec_status_table_def)
  show ?thesis
    using decode_status_spec_table[of ReadyToSwitchOn "[33, 49, 161, 177]" "0x0021"]
      decode_status_spec_table[of Fault "[8, 24, 40, 56, 136, 152, 168, 184]" "0x1F08"]
      decode_status_spec_table[of OperationEnabled "[39, 55, 167, 183]" "0x0027"]
      decode_status_spec_table[of UnknownState "[]" "0x0101"] r n
    unfolding a by simp
qed

text \<open>
  C5.  \<open>decode_mode\<close> returns the label of each of the nine codes \<open>-2\<close> to \<open>6\<close>, and the
  \<open>Unknown\<close> label for every other integer.
\<close>

theorem decode_mode_table:
  "decode_mode (-2) = mode_label AutoSetup \<and> decode_mode (-1) = mode_label ClockDirection \<and>
   decode_mode 0 = mode_label NoChange \<and> decode_mode 1 = mode_label ProfilePosition \<and>
   decode_mode 2 = mode_label Velocity \<and> decode_mode 3 = mode_label ProfileVelocity \<and>
   decode_mode 4 = mode_label ProfileTorque \<and> decode_mode 5 = mode_label Reserved \<and>
   decode_mode 6 = mode_label Homing \<and>
   (m \<notin> {-2, -1, 0, 1, 2, 3, 4, 5, 6} \<longrightarrow> decode_mode m = mode_label UnknownMode)"
  by (simp add: decode_mode_def)

theorem decode_mode_table_witness:
  "(42::int) \<notin> {-2, -1, 0, 1, 2, 3, 4, 5, 6} \<and>
   decode_mode 42 = ''Error not able to determine mode'' \<and>
   decode_mode 1 = ''Profile Position Mode'' \<and> decode_mode (-2) = ''Auto setup''"
  using decode_mode_table[of 42] by simp

text \<open>
  C6.  \<open>decode_status\<close> does not depend on the high byte of its input: setting all the
  bits of the high byte leaves the result unchanged, and the result is that of the input
  masked with \<open>0x00FF\<close>.
\<close>

theorem decode_status_high_byte:
  "decode_status (x OR 0xFF00) = decode_status x \<and> decode_status x = decode_status (x AND 0x00FF)"
  by (simp only: decode_status_first_match or_high and_idem)

text \<open>
  C9.  The eight value lists of the table \<open>state\<close> are pairwise disjoint, so a masked
  value is listed under at most one key, and testing the rows in any other order gives
  the result of \<open>decode_status\<close>.
\<close>

theorem state_rows_disjoint:
  "length state = 8 \<and> distinct (map fst state) \<and>
   ((k, vs) \<in> set state \<and> (k', vs') \<in> set state \<and> k \<noteq> k' \<longrightarrow> set vs \<inter> set vs' = {}) \<and>
   ((k, vs) \<in> set state \<and> (k', vs') \<in> set state \<and> m \<in> set vs \<and> m \<in> set vs' \<longrightarrow> k = k') \<and>
   (set rows = set state \<longrightarrow> Inr (first_match rows (x AND 0x00FF)) = decode_status x)"
proof -
  have one: "(k, vs) \<in> set state \<and> (k', vs') \<in> set state \<and> m \<in> set vs \<and> m \<in> set vs' \<longrightarrow> k = k'" for m
    using rows_unique[OF state_distinct, of "(k, vs)" "(k', vs')" m] by auto
  have dis: "(k, vs) \<in> set state \<and> (k', vs') \<in> set state \<and> k \<noteq> k' \<longrightarrow> set vs \<inter> set vs' = {}"
    using one by blast
  have ord: "set rows = set state \<longrightarrow> Inr (first_match rows (x AND 0x00FF)) = decode_status x"
    using first_match_any_order[of rows "x AND 255"] by (simp add: decode_status_first_match)
  have len: "length state = 8 \<and> distinct (map fst state)" by (simp add: state_def)
  show ?thesis using one[of m] dis ord len by blast
qed

theorem state_rows_disjoint_witness:
  "(''Fault'', [8, 24, 40, 56, 136, 152, 168, 184]) \<in> set state \<and>
   (''Fault reaction active'', [15, 31, 47, 63, 143, 159, 175, 191]) \<in> set state \<and>
   ''Fault'' \<noteq> ''Fault reaction active'' \<and>
   set [8, 24, 40, 56, 136, 152, 168, 184] \<inter> set [15, 31, 47, 63, 143, 159, 175, 191] = ({} :: int set) \<and>
   set (rev state) = set state \<and>
   Inr (first_match (rev state) (0x1F08 AND 0x00FF)) = decode_status 0x1F08 \<and>
   decode_status 0x1F08 = Inr ''Fault''"
proof -
  have a: "(0x1F08::int) AND 0x00FF = 8" by simp
  have d: "decode_status 0x1F08 = Inr ''Fault''"
    unfolding decode_status_first_match a by (simp add: state_def)
  have r: "set (rev state) = set state" by simp
  have i: "(''Fault'', [8, 24, 40, 56, 136, 152, 168, 184]) \<in> set state"
    "(''Fault reaction active'', [15, 31, 47, 63, 143, 159, 175, 191]) \<in> set state"
    by (simp_all add: state_def)
  have k: "''Fault'' \<noteq> ''Fault reaction active''" by simp
  show ?thesis
    using state_rows_disjoint[of "''Fault''" "[8, 24, 40, 56, 136, 152, 168, 184]"
        "''Fault reaction active''" "[15, 31, 47, 63, 143, 159, 175, 191]" 8 "rev state" "0x1F08"]
      d r i k
    by blast
qed

section \<open>Claim about bus selection\<close>

text \<open>
  C10.  \<open>select_bus\<close> returns the index of the last entry whose name contains
  \<open>Nanotec VCP\<close> as a substring (index \<open>0\<close> included), and raises an exception, returning
  no index, when no entry's name contains it.
\<close>

theorem select_bus_last_match:
  "(j < length bus_hardwares \<and> str_contains ''Nanotec VCP'' (getName (bus_hardwares ! j)) \<and>
    (\<forall>k. j < k \<and> k < length bus_hardwares
          \<longrightarrow> \<not> str_contains ''Nanotec VCP'' (getName (bus_hardwares ! k)))
      \<longrightarrow> select_bus bus_hardwares = Inr (PyInt j)) \<and>
   ((\<forall>b \<in> set bus_hardwares. \<not> str_contains ''Nanotec VCP'' (getName b))
      \<longrightarrow> select_bus bus_hardwares = Inl (Exception ''No USB Nanotec Controller Found''))"
proof (intro conjI impI)
  assume "j < length bus_hardwares \<and> str_contains ''Nanotec VCP'' (getName (bus_hardwares ! j)) \<and>
    (\<forall>k. j < k \<and> k < length bus_hardwares
          \<longrightarrow> \<not> str_contains ''Nanotec VCP'' (getName (bus_hardwares ! k)))"
  then have "snd (select_bus_loop bus_hardwares 0 (PyStr '''')) = PyInt (0 + j)"
    using select_bus_loop_last[of j bus_hardwares 0 "PyStr ''''"] by blast
  then show "select_bus bus_hardwares = Inr (PyInt j)"
    by (simp add: select_bus_def case_prod_beta)
next
  assume "\<forall>b \<in> set bus_hardwares. \<not> str_contains ''Nanotec VCP'' (getName b)"
  then have "snd (select_bus_loop bus_hardwares 0 (PyStr '''')) = PyStr ''''"
    by (rule select_bus_loop_none)
  then show "select_bus bus_hardwares = Inl (Exception ''No USB Nanotec Controller Found'')"
    by (simp add: select_bus_def case_prod_beta)
qed

theorem select_bus_last_match_witness:
  "2 < length [\<lparr>getName = ''Nanotec VCP'', getProtocol = ''MODBUS VCP''\<rparr>,
       \<lparr>getName = ''IXXAT'', getProtocol = ''CANopen''\<rparr>,
       \<lparr>getName = ''USB Bus (Nanotec VCP)'', getProtocol = ''MODBUS VCP''\<rparr>,
       \<lparr>getName = ''Serial Port (COM1)'', getProtocol = ''MODBUS RTU''\<rparr>] \<and>
   str_contains ''Nanotec VCP'' (getName
      ([\<lparr>getName = ''Nanotec VCP'', getProtocol = ''MODBUS VCP''\<rparr>,
        \<lparr>getName = ''IXXAT'', getProtocol = ''CANopen''\<rparr>,
        \<lparr>getName = ''USB Bus (Nanotec VCP)'', getProtocol = ''MODBUS VCP''\<rparr>,
        \<lparr>getName = ''Serial Port (COM1)'', getProtocol = ''MODBUS RTU''\<rparr>] ! 2)) \<and>
   \<not> (\<exists>k. 2 < k \<and> k < 4 \<and> str_contains ''Nanotec VCP'' (getName
      ([\<lparr>getName = ''Nanotec VCP'', getProtocol = ''MODBUS VCP''\<rparr>,
        \<lparr>getName = ''IXXAT'', getProtocol = ''CANopen''\<rparr>,
        \<lparr>getName = ''USB Bus (Nanotec VCP)'', getProtocol = ''MODBUS VCP''\<rparr>,
        \<lparr>getName = ''Serial Port (COM1)'', getProtocol = ''MODBUS RTU''\<rparr>] ! k))) \<and>
   select_bus [\<lparr>getName = ''Nanotec VCP'', getProtocol = ''MODBUS VCP''\<rparr>,
       \<lparr>getName = ''IXXAT'', getProtocol = ''CANopen''\<rparr>,
       \<lparr>getName = ''USB Bus (Nanotec VCP)'', getProtocol = ''MODBUS VCP''\<rparr>,
       \<lparr>getName = ''Serial Port (COM1)'', getProtocol = ''MODBUS RTU''\<rparr>] = Inr (PyInt 2) \<and>
   select_bus [\<lparr>getName = ''Nanotec VCP'', getProtocol = ''MODBUS VCP''\<rparr>,
       \<lparr>getName = ''IXXAT'', getProtocol = ''CANopen''\<rparr>] = Inr (PyInt 0) \<and>
   \<not> (\<exists>b \<in> set [\<lparr>getName = ''IXXAT'', getProtocol = ''CANopen''\<rparr>].
        str_contains ''Nanotec VCP'' (getName b)) \<and>
   select_bus [\<lparr>getName = ''IXXAT'', getProtocol = ''CANopen''\<rparr>]
     = Inl (Exception ''No USB Nanotec Controller Found'')"
proof -
  have k3: "2 < k \<Longrightarrow> k < 4 \<Longrightarrow> k = 3" for k :: nat by arith
  have n3: "[a, b, c, d] ! 3 = d" for a b c d :: BusHardwareId by (simp add: numeral_3_eq_3)
  have n2: "[a, b, c, d] ! 2 = c" for a b c d :: BusHardwareId by (simp add: numeral_2_eq_2)
  have k1: "0 < k \<Longrightarrow> k < 2 \<Longrightarrow> k = 1" for k :: nat by arith
  have above2: "\<forall>k. 2 < k \<and> k < length [\<lparr>getName = ''Nanotec VCP'', getProtocol = ''MODBUS VCP''\<rparr>,
       \<lparr>getName = ''IXXAT'', getProtocol = ''CANopen''\<rparr>,
       \<lparr>getName = ''USB Bus (Nanotec VCP)'', getProtocol = ''MODBUS VCP''\<rparr>,
       \<lparr>getName = ''Serial Port (COM1)'', getProtocol = ''MODBUS RTU''\<rparr>]
     \<longrightarrow> \<not> str_contains ''Nanotec VCP'' (getName
      ([\<lparr>getName = ''Nanotec VCP'', getProtocol = ''MODBUS VCP''\<rparr>,
        \<lparr>getName = ''IXXAT'', getProtocol = ''CANopen''\<rparr>,
        \<lparr>getName = ''USB Bus (Nanotec VCP)'', getProtocol = ''MODBUS VCP''\<rparr>,
        \<lparr>getName = ''Serial Port (COM1)'', getProtocol = ''MODBUS RTU''\<rparr>] ! k))"
    using k3 by (auto simp: n3 contains_examples)
  have above0: "\<forall>k. 0 < k \<and> k < length [\<lparr>getName = ''Nanotec VCP'', getProtocol = ''MODBUS VCP''\<rparr>,
       \<lparr>getName = ''IXXAT'', getProtocol = ''CANopen''\<rparr>]
     \<longrightarrow> \<not> str_contains ''Nanotec VCP'' (getName
      ([\<lparr>getName = ''Nanotec VCP'', getProtocol = ''MODBUS VCP''\<rparr>,
        \<lparr>getName = ''IXXAT'', getProtocol = ''CANopen''\<rparr>] ! k))"
    using k1 by (auto simp: contains_examples)
  have r2: "select_bus [\<lparr>getName = ''Nanotec VCP'', getProtocol = ''MODBUS VCP''\<rparr>,
       \<lparr>getName = ''IXXAT'', getProtocol = ''CANopen''\<rparr>,
       \<lparr>getName = ''USB Bus (Nanotec VCP)'', getProtocol = ''MODBUS VCP''\<rparr>,
       \<lparr>getName = ''Serial Port (COM1)'', getProtocol = ''MODBUS RTU''\<rparr>] = Inr (PyInt 2)"
    using above2 select_bus_last_match[of 2 "[\<lparr>getName = ''Nanotec VCP'', getProtocol = ''MODBUS VCP''\<rparr>,
       \<lparr>getName = ''IXXAT'', getProtocol = ''CANopen''\<rparr>,
       \<lparr>getName = ''USB Bus (Nanotec VCP)'', getProtocol = ''MODBUS VCP''\<rparr>,
       \<lparr>getName = ''Serial Port (COM1)'', getProtocol = ''MODBUS RTU''\<rparr>]"]
    by (simp add: n2 contains_examples)
  have r0: "select_bus [\<lparr>getName = ''Nanotec VCP'', getProtocol = ''MODBUS VCP''\<rparr>,
       \<lparr>getName = ''IXXAT'', getProtocol = ''CANopen''\<rparr>] = Inr (PyInt 0)"
    using above0 select_bus_last_match[of 0 "[\<lparr>getName = ''Nanotec VCP'', getProtocol = ''MODBUS VCP''\<rparr>,
       \<lparr>getName = ''IXXAT'', getProtocol = ''CANopen''\<rparr>]"]
    by (simp add: contains_examples)
  have rn: "select_bus [\<lparr>getName = ''IXXAT'', getProtocol = ''CANopen''\<rparr>]
     = Inl (Exception ''No USB Nanotec Controller Found'')"
    using select_bus_last_match[of 0 "[\<lparr>getName = ''IXXAT'', getProtocol = ''CANopen''\<rparr>]"]
    by (simp add: contains_examples)
  show ?thesis using r2 r0 rn above2 by (simp add: n2 contains_examples)
qed

section \<open>Claims about the motion sequencer\<close>

text \<open>
  C2.  When every gateway call succeeds, the writes the script issues before its first
  write to the target-position register \<open>607A:00\<close> are exactly, in this order: operating
  mode \<open>1\<close> to \<open>6060:00\<close>, then controlword \<open>6\<close>, \<open>7\<close> and \<open>15\<close> to \<open>6040:00\<close>.  A write
  to the target position does follow, and the script ends without an exception.
\<close>

theorem handshake_before_target:
  "ok_prefix 34 g \<longrightarrow>
     writes_of (takeWhile (\<lambda>e. \<not> is_target_write e) (events (main_sequence h) g)) =
       [WriteNumber h 1 (OdIndex 0x6060 0) 8,
        WriteNumber h 6 (OdIndex 0x6040 0) 16,
        WriteNumber h 7 (OdIndex 0x6040 0) 16,
        WriteNumber h 15 (OdIndex 0x6040 0) 16] \<and>
     (\<exists>e \<in> set (events (main_sequence h) g). is_target_write e) \<and>
     outcome (main_sequence h) g = Inr ()"
proof
  assume ok: "ok_prefix 34 g"
  have t: "\<exists>e \<in> set (cycle_events h 1). is_target_write e" by (simp add: cycle_events_def)
  show "writes_of (takeWhile (\<lambda>e. \<not> is_target_write e) (events (main_sequence h) g)) =
       [WriteNumber h 1 (OdIndex 0x6060 0) 8,
        WriteNumber h 6 (OdIndex 0x6040 0) 16,
        WriteNumber h 7 (OdIndex 0x6040 0) 16,
        WriteNumber h 15 (OdIndex 0x6040 0) 16] \<and>
     (\<exists>e \<in> set (events (main_sequence h) g). is_target_write e) \<and>
     outcome (main_sequence h) g = Inr ()"
    using t by (auto simp: events_def outcome_def main_sequence_ok[OF ok] handshake_no_target
        writes_of_handshake)
qed

theorem handshake_before_target_witness:
  "ok_prefix 34 always_ok \<and>
     writes_of (takeWhile (\<lambda>e. \<not> is_target_write e) (events (main_sequence 1) always_ok)) =
       [WriteNumber 1 1 (OdIndex 0x6060 0) 8,
        WriteNumber 1 6 (OdIndex 0x6040 0) 16,
        WriteNumber 1 7 (OdIndex 0x6040 0) 16,
        WriteNumber 1 15 (OdIndex 0x6040 0) 16] \<and>
     outcome (main_sequence 1) always_ok = Inr ()"
  using handshake_before_target[of always_ok 1] ok_prefix_always_ok[of 34] by simp

text \<open>
  C3.  Whatever the gateway answers, a gateway call whose result reports an error is the
  last thing the script does: it is the last call made and the last event of the run (no
  later write, wait or print, no second attempt), and the run ends with an exception.
  With a gateway whose write of controlword \<open>7\<close> fails, the writes issued are operating
  mode \<open>1\<close>, controlword \<open>6\<close> and controlword \<open>7\<close>, and nothing else.
\<close>

theorem failed_call_is_last:
  "i < length (calls_of (events (main_sequence h) g)) \<and> hasError (g !! i) \<longrightarrow>
     Suc i = length (calls_of (events (main_sequence h) g)) \<and>
     is_call (last (events (main_sequence h) g)) \<and>
     isl (outcome (main_sequence h) g)"
proof -
  obtain r evs g' where m: "main_sequence h g = (r, evs, g')" by (cases "main_sequence h g") auto
  show ?thesis
    using fail_stopD(2)[OF fail_stop_main_sequence m, of i]
    by (auto simp: events_def outcome_def m)
qed

theorem failed_call_is_last_witness:
  "5 < length (calls_of (events (main_sequence 1) fails_on_switch_on)) \<and>
   hasError (fails_on_switch_on !! 5) \<and>
   Suc 5 = length (calls_of (events (main_sequence 1) fails_on_switch_on)) \<and>
   is_call (last (events (main_sequence 1) fails_on_switch_on)) \<and>
   isl (outcome (main_sequence 1) fails_on_switch_on) \<and>
   last (events (main_sequence 1) fails_on_switch_on) = WriteNumber 1 7 (OdIndex 0x6040 0) 16 \<and>
   writes_of (events (main_sequence 1) fails_on_switch_on) =
     [WriteNumber 1 1 (OdIndex 0x6060 0) 8,
      WriteNumber 1 6 (OdIndex 0x6040 0) 16,
      WriteNumber 1 7 (OdIndex 0x6040 0) 16]"
proof -
  have e: "hasError (fails_on_switch_on !! 5)"
    by (simp add: fails_on_switch_on_def snth_numeral)
  have n: "5 < length (calls_of (events (main_sequence 1) fails_on_switch_on))"
    by (simp add: events_def main_events_fail calls_of_def)
  have w: "last (events (main_sequence 1) fails_on_switch_on) = WriteNumber 1 7 (OdIndex 0x6040 0) 16"
    "writes_of (events (main_sequence 1) fails_on_switch_on) =
     [WriteNumber 1 1 (OdIndex 0x6060 0) 8,
      WriteNumber 1 6 (OdIndex 0x6040 0) 16,
      WriteNumber 1 7 (OdIndex 0x6040 0) 16]"
    by (simp_all add: events_def main_events_fail writes_of_def)
  show ?thesis
    using failed_call_is_last[of 5 1 fails_on_switch_on] e n w by blast
qed

text \<open>
  C4.  The claim is that the exception raised on a failed gateway read or write carries
  a message naming the failed operation, the device handle and the OD index.  In the
  script both \<open>read_number\<close> and \<open>write_number\<close> ask \<^verbatim>\<open>self.create_error_message\<close> for
  that message, and the class has no such method: what reaches the caller is an
  \<open>AttributeError\<close> whose text names neither the operation nor the OD index.
\<close>

theorem gateway_failure_raises_attribute_error:
  "outcome (write_number 1 7 (OdIndex 0x6040 0) 16) (Result True ''SDO abort'' 0 ## always_ok)
     = Inl (AttributeError ''NanoLibController'' ''create_error_message'') \<and>
   outcome (read_number 1 (OdIndex 0x6041 0)) (Result True ''SDO abort'' 0 ## always_ok)
     = Inl (AttributeError ''NanoLibController'' ''create_error_message'') \<and>
   outcome (main_sequence 1) fails_on_switch_on
     = Inl (AttributeError ''NanoLibController'' ''create_error_message'') \<and>
   exn_message (AttributeError ''NanoLibController'' ''create_error_message'')
     = quote ''NanoLibController'' @ '' object has no attribute '' @ quote ''create_error_message'' \<and>
   \<not> str_contains ''write_number'' (exn_message (AttributeError ''NanoLibController'' ''create_error_message'')) \<and>
   \<not> str_contains ''read_number'' (exn_message (AttributeError ''NanoLibController'' ''create_error_message'')) \<and>
   \<not> str_contains ''6040'' (exn_message (AttributeError ''NanoLibController'' ''create_error_message'')) \<and>
   \<not> str_contains ''6041'' (exn_message (AttributeError ''NanoLibController'' ''create_error_message''))"
  by (simp add: outcome_def main_events_fail write_number_if read_number_if
      str_contains_def sublist_code quote_def)

text \<open>
  C7.  One repetition of the move loop issues, in this order, the target position
  \<open>1000\<close>, the controlwords \<open>0b11111\<close> and \<open>0b1111\<close>, a wait, the target position \<open>0\<close>, the
  same two controlwords and a wait (and then prints \<open>count\<close>): two controlword writes in
  each half.  Whatever the gateway answers, the events of a repetition are an initial part
  of that list; when its six calls succeed they are the whole list.  When every call of
  the script succeeds, the run from its first target-position write on is four such
  repetitions followed by the disconnect.
\<close>

theorem move_loop_cycle:
  "prefix (events (move_cycle h x count) g) (cycle_events h count) \<and>
   (ok_prefix 6 g \<longrightarrow>
      move_cycle h x count g = (Inr (count + 1), cycle_events h count, sdrop 6 g)) \<and>
   writes_of (cycle_events h count) =
     [WriteNumber h 1000 (OdIndex 0x607A 0) 32,
      WriteNumber h 0b11111 (OdIndex 0x6040 0) 16, WriteNumber h 0b1111 (OdIndex 0x6040 0) 16,
      WriteNumber h 0 (OdIndex 0x607A 0) 32,
      WriteNumber h 0b11111 (OdIndex 0x6040 0) 16, WriteNumber h 0b1111 (OdIndex 0x6040 0) 16] \<and>
   (ok_prefix 34 g \<longrightarrow>
      dropWhile (\<lambda>e. \<not> is_target_write e) (events (main_sequence h) g) =
        cycle_events h 1 @ cycle_events h 2 @ cycle_events h 3 @ cycle_events h 4
          @ [DisconnectDevice h])"
proof (intro conjI impI)
  show "prefix (events (move_cycle h x count) g) (cycle_events h count)"
    by (rule move_cycle_prefix)
  show "move_cycle h x count g = (Inr (count + 1), cycle_events h count, sdrop 6 g)"
    if "ok_prefix 6 g" using that by (rule move_cycle_ok)
  show "writes_of (cycle_events h count) =
     [WriteNumber h 1000 (OdIndex 0x607A 0) 32,
      WriteNumber h 0b11111 (OdIndex 0x6040 0) 16, WriteNumber h 0b1111 (OdIndex 0x6040 0) 16,
      WriteNumber h 0 (OdIndex 0x607A 0) 32,
      WriteNumber h 0b11111 (OdIndex 0x6040 0) 16, WriteNumber h 0b1111 (OdIndex 0x6040 0) 16]"
    by (simp add: cycle_events_def writes_of_def)
  show "dropWhile (\<lambda>e. \<not> is_target_write e) (events (main_sequence h) g) =
        cycle_events h 1 @ cycle_events h 2 @ cycle_events h 3 @ cycle_events h 4
          @ [DisconnectDevice h]"
    if ok: "ok_prefix 34 g"
    by (simp add: events_def main_sequence_ok[OF ok] handshake_drop)
qed

theorem move_loop_cycle_witness:
  "ok_prefix 6 always_ok \<and>
   move_cycle 1 0 1 always_ok = (Inr 2, cycle_events 1 1, always_ok) \<and>
   ok_prefix 34 always_ok \<and>
   dropWhile (\<lambda>e. \<not> is_target_write e) (events (main_sequence 1) always_ok) =
        cycle_events 1 1 @ cycle_events 1 2 @ cycle_events 1 3 @ cycle_events 1 4
          @ [DisconnectDevice 1]"
  using move_loop_cycle[of 1 0 1 always_ok] ok_prefix_always_ok[of 6] ok_prefix_always_ok[of 34]
  by (simp add: sdrop_numeral always_ok_simps)

text \<open>
  C8.  The first status word read is only printed.  Take two gateways that agree on
  everything but the first result, and whose first results agree on whether they report
  an error: the two runs make the same gateway calls, issue the same register writes in
  the same order, and end the same way.
\<close>

theorem status_read_informational:
  "hasError (shd g) = hasError (shd g') \<and> stl g = stl g' \<longrightarrow>
     writes_of (events (main_sequence h) g) = writes_of (events (main_sequence h) g') \<and>
     calls_of (events (main_sequence h) g) = calls_of (events (main_sequence h) g') \<and>
     outcome (main_sequence h) g = outcome (main_sequence h) g'"
proof -
  define rest :: "unit io" where "rest =
      (io_then (write_number h 1 (OdIndex 0x6060 0x00) 8)
      (io_bind (read_number h (OdIndex 0x6061 0x00)) (\<lambda>mode.
      io_bind (io_return (decode_mode mode)) (\<lambda>mode.
      io_then (print (''Controller mode: '' @ mode))
      (io_bind (read_number h (OdIndex 0x6040 0x00)) (\<lambda>control_word.
      io_then (print (str_int control_word))
      (io_then (print (format_b control_word))
      (io_then (write_number h 6 (OdIndex 0x6040 0x00) 16)
      (io_then (sleep 2)
      (io_then (write_number h 7 (OdIndex 0x6040 0x00) 16)
      (io_then (sleep 2)
      (io_then (write_number h 15 (OdIndex 0x6040 0x00) 16)
      (io_bind (read_number h (OdIndex 0x6040 0x00)) (\<lambda>control_word.
      io_then (print (str_int control_word))
      (io_then (print (format_b control_word))
      (io_bind (read_number h (OdIndex 0x6041 0x00)) (\<lambda>status_word.
      io_then (print (format_b status_word))
      (io_bind (io_lift (decode_status status_word)) (\<lambda>state.
      io_then (print (CHR 0x0A # ''Current controller state: '' @ state))
      (io_bind (for_in (range 4) (move_cycle h) 1) (\<lambda>count.
      disconnect_device h)))))))))))))))))))))"
  have split: "main_sequence h =
     io_bind (read_number h (OdIndex 0x6041 0x00)) (\<lambda>status_word.
     io_bind (io_lift (decode_status status_word)) (\<lambda>state.
     io_then (print (CHR 0x0A # ''Current controller state: '' @ state)) rest))"
    unfolding main_sequence_def rest_def by (rule refl)
  have run: "main_sequence h g =
      (if hasError (shd g) then
         (Inl (AttributeError ''NanoLibController'' ''create_error_message''),
          [ReadNumber h (OdIndex 0x6041 0)], stl g)
       else (case rest (stl g) of (r, evs, g2) \<Rightarrow>
          (r, [ReadNumber h (OdIndex 0x6041 0),
               Print (CHR 0x0A # ''Current controller state: ''
                        @ first_match state (getResult (shd g) AND 255))] @ evs, g2)))" for g
    by (simp add: split io_bind_def io_then_def read_number_if decode_status_lift print_def
        split: prod.splits)
  show ?thesis
    by (auto simp: run events_def outcome_def writes_of_def calls_of_def split: prod.splits)
qed

theorem status_read_informational_witness:
  "hasError (shd (Result False [] 0x0027 ## always_ok))
     = hasError (shd (Result False [] 0x0008 ## always_ok)) \<and>
   stl (Result False [] 0x0027 ## always_ok) = stl (Result False [] 0x0008 ## always_ok) \<and>
   decode_status 0x0027 \<noteq> decode_status 0x0008 \<and>
   writes_of (events (main_sequence 1) (Result False [] 0x0027 ## always_ok))
     = writes_of (events (main_sequence 1) (Result False [] 0x0008 ## always_ok)) \<and>
   outcome (main_sequence 1) (Result False [] 0x0027 ## always_ok)
     = outcome (main_sequence 1) (Result False [] 0x0008 ## always_ok)"
proof -
  have a: "(0x27::int) AND 255 = 39" "(0x08::int) AND 255 = 8" by simp_all
  have d: "decode_status 0x0027 \<noteq> decode_status 0x0008"
    unfolding decode_status_first_match a by (simp add: state_def)
  show ?thesis
    using status_read_informational[of "Result False [] 0x0027 ## always_ok"
        "Result False [] 0x0008 ## always_ok" 1] d
    by simp
qed

end
